theory Spec2Isabelle
  imports Complex_Main "HOL-Library.Multiset" "HOL-Library.Sublist"
begin

section \<open>Data model of \<^verbatim>\<open>src/app.py\<close>\<close>

text \<open>
  \<^verbatim>\<open>CharacterInput\<close> is the pydantic request model: five \<^verbatim>\<open>str\<close> fields, six
  \<^verbatim>\<open>int\<close> fields (Python integers, unbounded), four \<^verbatim>\<open>Optional[bool]\<close> fields with
  default \<^verbatim>\<open>False\<close> (a request may still send \<^verbatim>\<open>null\<close>, which is \<open>None\<close>), two
  required \<^verbatim>\<open>bool\<close> fields and one \<^verbatim>\<open>Optional[float]\<close> field. The float is only ever
  carried around, never computed with, so it is a \<open>real\<close> here.
\<close>

record CharacterInput =
  region :: string
  primary_role :: string
  alignment :: string
  status :: string
  species :: string
  honour_1to5 :: int
  ruthlessness_1to5 :: int
  intelligence_1to5 :: int
  combat_skill_1to5 :: int
  diplomacy_1to5 :: int
  leadership_1to5 :: int
  trait_strategic :: "bool option"
  trait_impulsive :: "bool option"
  trait_charismatic :: "bool option"
  trait_vengeful :: "bool option"
  trait_loyal :: bool
  trait_scheming :: bool
  feature_set_version :: "real option"

text \<open>The Python values that occur in the request dictionary and in the data frame.\<close>

datatype pyval = PStr string | PInt int | PFloat real | PBool bool | PNone

text \<open>
  A data frame with one row: its columns in order, each a label and the value of the row.
  Labels may repeat, as in pandas.
\<close>

type_synonym frame = "(string \<times> pyval) list"

type_synonym label = string

text \<open>
  What a Python call may raise: an instance of \<^verbatim>\<open>Exception\<close>, given by its \<^verbatim>\<open>str\<close>, or an
  exception that is not one (\<^verbatim>\<open>SystemExit\<close>, \<^verbatim>\<open>KeyboardInterrupt\<close>, \<^verbatim>\<open>GeneratorExit\<close>), which
  a handler \<^verbatim>\<open>except Exception\<close> does not catch.
\<close>

datatype raised = Exception string | BaseException string

text \<open>
  The loaded object is opaque. Its \<^verbatim>\<open>predict\<close> either raises or returns some object, and
  all that the source does with that object is read \<^verbatim>\<open>prediction[0]\<close>; that read either
  raises too (an empty array or list, \<^verbatim>\<open>None\<close>, a scalar, each with its own text) or gives
  the first prediction. So a model is a function from the aligned frame to: what the call
  raises, or else what the read of entry 0 raises, or else the entry.
\<close>

type_synonym model = "frame \<Rightarrow> raised + (raised + label)"

text \<open>
  What \<^verbatim>\<open>predict\<close> can raise: the two \<^verbatim>\<open>HTTPException\<close>s of the source (status code
  and detail); the \<^verbatim>\<open>ValueError\<close> of \<^verbatim>\<open>DataFrame.reindex\<close>, which no handler of the
  function catches; and an exception of the model that is no \<^verbatim>\<open>Exception\<close> and so passes
  the handler of line 90.
\<close>

datatype error = HTTPException nat string | ValueError string | Uncaught string

text \<open>The module's two globals.\<close>

record globals =
  model :: "model option"
  feature_columns :: "string list option"

definition initial_globals :: globals where
  "initial_globals = \<lparr>model = None, feature_columns = None\<rparr>"

section \<open>The request dictionary\<close>

definition opt_bool :: "bool option \<Rightarrow> pyval" where
  "opt_bool b = (case b of None \<Rightarrow> PNone | Some v \<Rightarrow> PBool v)"

definition opt_float :: "real option \<Rightarrow> pyval" where
  "opt_float x = (case x of None \<Rightarrow> PNone | Some v \<Rightarrow> PFloat v)"

text \<open>\<^verbatim>\<open>character.dict()\<close>: the fields in declaration order.\<close>

definition dict :: "CharacterInput \<Rightarrow> frame" where
  "dict c =
    [(''region'', PStr (region c)),
     (''primary_role'', PStr (primary_role c)),
     (''alignment'', PStr (alignment c)),
     (''status'', PStr (status c)),
     (''species'', PStr (species c)),
     (''honour_1to5'', PInt (honour_1to5 c)),
     (''ruthlessness_1to5'', PInt (ruthlessness_1to5 c)),
     (''intelligence_1to5'', PInt (intelligence_1to5 c)),
     (''combat_skill_1to5'', PInt (combat_skill_1to5 c)),
     (''diplomacy_1to5'', PInt (diplomacy_1to5 c)),
     (''leadership_1to5'', PInt (leadership_1to5 c)),
     (''trait_strategic'', opt_bool (trait_strategic c)),
     (''trait_impulsive'', opt_bool (trait_impulsive c)),
     (''trait_charismatic'', opt_bool (trait_charismatic c)),
     (''trait_vengeful'', opt_bool (trait_vengeful c)),
     (''trait_loyal'', PBool (trait_loyal c)),
     (''trait_scheming'', PBool (trait_scheming c)),
     (''feature_set_version'', opt_float (feature_set_version c))]"

text \<open>
  The loop of lines 72 to 74: every value that is a \<^verbatim>\<open>bool\<close> is replaced by 1 or 0;
  nothing else is one (\<^verbatim>\<open>isinstance(3, bool)\<close> and \<^verbatim>\<open>isinstance(None, bool)\<close> are
  false).
\<close>

fun bool_to_int :: "pyval \<Rightarrow> pyval" where
  "bool_to_int (PBool b) = PInt (if b then 1 else 0)"
| "bool_to_int v = v"

definition bools_to_ints :: "frame \<Rightarrow> frame" where
  "bools_to_ints data = map (\<lambda>(key, v). (key, bool_to_int v)) data"

section \<open>The pandas operations\<close>

text \<open>
  \<^verbatim>\<open>predict\<close> calls three operations of the pandas library, on a frame of one row; the
  definitions of this section state what they do there.

  \<^verbatim>\<open>pd.DataFrame([data])\<close> infers a dtype for each column. A string or \<open>None\<close> gives
  an \<^verbatim>\<open>object\<close> column; an integer gives \<^verbatim>\<open>int64\<close> (or \<^verbatim>\<open>uint64\<close>) when it fits and an
  \<^verbatim>\<open>object\<close> column holding the Python integer when it does not; a float gives
  \<^verbatim>\<open>float64\<close>, a bool gives \<^verbatim>\<open>bool\<close>.
\<close>

definition native_int :: "int \<Rightarrow> bool" where
  "native_int i \<longleftrightarrow> - (2 ^ 63) \<le> i \<and> i < 2 ^ 64"

fun object_dtype :: "pyval \<Rightarrow> bool" where
  "object_dtype (PStr s) = True"
| "object_dtype PNone = True"
| "object_dtype (PInt i) = (\<not> native_int i)"
| "object_dtype (PFloat x) = False"
| "object_dtype (PBool b) = False"

text \<open>Python's \<^verbatim>\<open>str\<close> of an integer, which names the indicator of an integer level.\<close>

definition digit_char :: "nat \<Rightarrow> char" where
  "digit_char d = ''0123456789'' ! (d mod 10)"

function str_nat :: "nat \<Rightarrow> string" where
  "str_nat n = (if n < 10 then [digit_char n] else str_nat (n div 10) @ [digit_char n])"
  by pat_completeness auto
termination
  by (relation "measure (\<lambda>n. n)") auto

definition str_int :: "int \<Rightarrow> string" where
  "str_int i = (if i < 0 then CHR ''-'' # str_nat (nat (- i)) else str_nat (nat i))"

text \<open>
  \<^verbatim>\<open>pd.get_dummies(df, dummy_na=True)\<close> on one row. The columns that are not of dtype
  \<^verbatim>\<open>object\<close> come first, unchanged and in their order. Each \<^verbatim>\<open>object\<close> column follows,
  replaced by one indicator per level, named \<^verbatim>\<open>f"{column}_{level}"\<close>, and by the indicator
  of the missing value that \<^verbatim>\<open>dummy_na\<close> appends, named with the \<^verbatim>\<open>str\<close> of
  \<^verbatim>\<open>numpy.nan\<close>, which is \<^verbatim>\<open>nan\<close>. A row holding a value has that value as its only
  level, with indicator 1 and missing-value indicator 0; a row holding \<open>None\<close> has no
  level and missing-value indicator 1. (Recent pandas stores the indicators as
  \<^verbatim>\<open>True\<close>/\<^verbatim>\<open>False\<close>, which are the numbers 1 and 0.)
\<close>

fun level_name :: "pyval \<Rightarrow> string" where
  "level_name (PStr s) = s"
| "level_name (PInt i) = str_int i"
| "level_name v = ''nan''"

fun dummies :: "string \<times> pyval \<Rightarrow> frame" where
  "dummies (col, PNone) = [(col @ ''_nan'', PInt 1)]"
| "dummies (col, v) = [(col @ ''_'' @ level_name v, PInt 1), (col @ ''_nan'', PInt 0)]"

definition get_dummies :: "frame \<Rightarrow> frame" where
  "get_dummies df =
     filter (\<lambda>(col, v). \<not> object_dtype v) df
     @ concat (map dummies (filter (\<lambda>(col, v). object_dtype v) df))"

text \<open>
  \<^verbatim>\<open>df.reindex(columns=feature_columns, fill_value=0)\<close>. When the requested labels are the
  frame's own labels the frame is returned as it is. Otherwise pandas refuses a frame with
  a repeated label (\<^verbatim>\<open>ValueError\<close>), and for a frame without one builds the columns in
  the requested order: the frame's value under that label, or the fill value 0.
\<close>

definition reindex :: "frame \<Rightarrow> string list \<Rightarrow> error + frame" where
  "reindex df columns =
     (if map fst df = columns then Inr df
      else if \<not> distinct (map fst df)
        then Inl (ValueError ''cannot reindex on an axis with duplicate labels'')
      else Inr (map (\<lambda>c. (c, case map_of df c of Some v \<Rightarrow> v | None \<Rightarrow> PInt 0)) columns))"

section \<open>\<^verbatim>\<open>load_artifacts\<close>\<close>

text \<open>
  What the function finds on disk: whether each of the two paths exists, and what
  \<^verbatim>\<open>joblib.load\<close> and \<^verbatim>\<open>json.load(f)["columns"]\<close> do when they are reached (\<open>Inl\<close>: an
  exception with its text).
\<close>

record artifacts =
  model_exists :: bool
  features_exists :: bool
  joblib_load :: "string + model"
  json_columns :: "string + string list"

text \<open>
  Nothing is assigned when a path is missing. Inside the \<^verbatim>\<open>try\<close>, \<^verbatim>\<open>model\<close> is assigned
  first; an exception after that leaves it assigned and \<^verbatim>\<open>feature_columns\<close> untouched.
\<close>

definition load_artifacts :: "artifacts \<Rightarrow> globals \<Rightarrow> globals" where
  "load_artifacts a g =
     (if \<not> model_exists a \<or> \<not> features_exists a then g
      else case joblib_load a of
             Inl e \<Rightarrow> g
           | Inr m \<Rightarrow>
               (let g1 = g\<lparr>model := Some m\<rparr>
                in case json_columns a of
                     Inl e \<Rightarrow> g1
                   | Inr cols \<Rightarrow> g1\<lparr>feature_columns := Some cols\<rparr>))"

section \<open>\<^verbatim>\<open>predict\<close>\<close>

text \<open>
  The steps of a request are recorded as they are performed, so that what a request did
  not do can be stated.
\<close>

datatype step = Encode | Align | Infer

text \<open>The encoding of lines 68 to 80.\<close>

definition encode :: "CharacterInput \<Rightarrow> frame" where
  "encode character = get_dummies (bools_to_ints (dict character))"

text \<open>
  Lines 87 to 91: the call of the model and the read of \<^verbatim>\<open>prediction[0]\<close> are both inside
  the \<^verbatim>\<open>try\<close>. The handler \<^verbatim>\<open>except Exception as e\<close> turns an \<^verbatim>\<open>Exception\<close> raised
  there into the status 500 with the text \<^verbatim>\<open>str(e)\<close>; any other exception leaves the
  function as it is.
\<close>

fun except_Exception :: "raised \<Rightarrow> error" where
  "except_Exception (Exception e) = HTTPException 500 (''Prediction failed: '' @ e)"
| "except_Exception (BaseException e) = Uncaught e"

definition infer :: "model \<Rightarrow> frame \<Rightarrow> error + (string \<times> label) list" where
  "infer m df_aligned =
     (case m df_aligned of
        Inl r \<Rightarrow> Inl (except_Exception r)
      | Inr prediction \<Rightarrow>
          (case prediction of
             Inl r \<Rightarrow> Inl (except_Exception r)
           | Inr p \<Rightarrow> Inr [(''house_affiliation'', p)]))"

definition predict :: "globals \<Rightarrow> CharacterInput \<Rightarrow> step list \<times> (error + (string \<times> label) list)" where
  "predict g character =
     (case (model g, feature_columns g) of
        (Some m, Some cols) \<Rightarrow>
          (let df_encoded = encode character
           in case reindex df_encoded cols of
                Inl e \<Rightarrow> ([Encode, Align], Inl e)
              | Inr df_aligned \<Rightarrow> ([Encode, Align, Infer], infer m df_aligned))
      | _ \<Rightarrow> ([], Inl (HTTPException 503 ''Model not loaded. Please check server logs.'')))"

section \<open>Auxiliary definitions\<close>

text \<open>
  The Aligner as the specification words it: for each name in schema order, the value of
  the feature map for that name if present, else 0.
\<close>

definition align_spec :: "(string \<rightharpoonup> pyval) \<Rightarrow> string list \<Rightarrow> pyval list" where
  "align_spec features schema =
     map (\<lambda>name. case features name of Some v \<Rightarrow> v | None \<Rightarrow> PInt 0) schema"

text \<open>
  The Predictor's contract as the specification states it (section 4.4): given the aligned
  vector, the call returns a label, or fails because the underlying model raises an error
  during inference. A model keeps it on a frame when its call there raises an
  \<^verbatim>\<open>Exception\<close> or returns predictions that have a first entry.
\<close>

fun predictor_contract :: "raised + (raised + label) \<Rightarrow> bool" where
  "predictor_contract (Inl (Exception e)) = True"
| "predictor_contract (Inl (BaseException e)) = False"
| "predictor_contract (Inr (Inl r)) = False"
| "predictor_contract (Inr (Inr p)) = True"

text \<open>The columns that \<^verbatim>\<open>get_dummies\<close> makes of one column of its argument.\<close>

fun cells :: "string \<times> pyval \<Rightarrow> frame" where
  "cells (col, v) = (if object_dtype v then dummies (col, v) else [(col, v)])"

text \<open>No name in the list is the beginning of another one.\<close>

fun prefix_free :: "string list \<Rightarrow> bool" where
  "prefix_free [] = True"
| "prefix_free (x # xs) = ((\<forall>y \<in> set xs. \<not> prefix x y \<and> \<not> prefix y x) \<and> prefix_free xs)"

text \<open>No categorical field of the request is the three letters \<^verbatim>\<open>nan\<close>.\<close>

definition no_literal_nan :: "CharacterInput \<Rightarrow> bool" where
  "no_literal_nan c \<longleftrightarrow>
     region c \<noteq> ''nan'' \<and> primary_role c \<noteq> ''nan'' \<and> alignment c \<noteq> ''nan''
     \<and> status c \<noteq> ''nan'' \<and> species c \<noteq> ''nan''"

text \<open>The encoding of a request from which one field has been left out.\<close>

definition encode_without :: "string \<Rightarrow> CharacterInput \<Rightarrow> frame" where
  "encode_without field character =
     get_dummies (bools_to_ints (filter (\<lambda>(key, v). key \<noteq> field) (dict character)))"

subsection \<open>Concrete requests, schemas and models\<close>

definition example_character :: CharacterInput where
  "example_character =
     \<lparr>region = ''North'', primary_role = ''Commander'', alignment = ''Lawful'',
      status = ''Alive'', species = ''Human'',
      honour_1to5 = 3, ruthlessness_1to5 = 2, intelligence_1to5 = 4,
      combat_skill_1to5 = 5, diplomacy_1to5 = 1, leadership_1to5 = 4,
      trait_strategic = Some True, trait_impulsive = Some False,
      trait_charismatic = Some False, trait_vengeful = Some False,
      trait_loyal = True, trait_scheming = False,
      feature_set_version = Some 1\<rparr>"

definition example_schema :: "string list" where
  "example_schema =
     [''honour_1to5'', ''trait_loyal'', ''region_North'', ''region_South'', ''region_nan'',
      ''species_Human'', ''species_nan'']"

definition stark_model :: model where
  "stark_model df = Inr (Inr ''Stark'')"

definition raising_model :: model where
  "raising_model df = Inl (Exception ''X has 7 features, but the classifier is expecting 40'')"

text \<open>Two objects that do not keep the Predictor's contract.\<close>

definition silent_model :: model where
  "silent_model df = Inr (Inl (Exception ''index 0 is out of bounds for axis 0 with size 0''))"

definition exiting_model :: model where
  "exiting_model df = Inl (BaseException ''SystemExit'')"

text \<open>A model that reads the column \<^verbatim>\<open>feature_set_version\<close> of the frame it is given.\<close>

definition version_model :: model where
  "version_model df =
     (if map_of df ''feature_set_version'' = Some (PFloat 1) then Inr (Inr ''Stark'')
      else Inr (Inr ''Lannister''))"

definition nan_character :: CharacterInput where
  "nan_character = example_character\<lparr>region := ''nan''\<rparr>"

definition unknown_character :: CharacterInput where
  "unknown_character = example_character\<lparr>region := ''Atlantis'', species := ''nan''\<rparr>"

definition ready_globals :: "model \<Rightarrow> globals" where
  "ready_globals m = \<lparr>model = Some m, feature_columns = Some example_schema\<rparr>"

definition example_aligned :: frame where
  "example_aligned =
     [(''honour_1to5'', PInt 3), (''trait_loyal'', PInt 1), (''region_North'', PInt 1),
      (''region_South'', PInt 0), (''region_nan'', PInt 0), (''species_Human'', PInt 1),
      (''species_nan'', PInt 0)]"

definition partial_artifacts :: artifacts where
  "partial_artifacts =
     \<lparr>model_exists = True, features_exists = True, joblib_load = Inr stark_model,
      json_columns = Inl ''Expecting value: line 1 column 1 (char 0)''\<rparr>"

definition complete_artifacts :: artifacts where
  "complete_artifacts =
     \<lparr>model_exists = True, features_exists = True, joblib_load = Inr stark_model,
      json_columns = Inr example_schema\<rparr>"

definition version_schema :: "string list" where
  "version_schema = [''honour_1to5'', ''feature_set_version'']"

section \<open>Column labels of the encoded frame\<close>

lemma digit_char_in: "digit_char d \<in> set ''0123456789''"
  unfolding digit_char_def by (rule nth_mem) simp

lemma str_nat_digits: "set (str_nat n) \<subseteq> set ''0123456789''"
proof (induction n rule: str_nat.induct)
  case (1 n)
  show ?case
  proof (cases "n < 10")
    case True
    then show ?thesis using digit_char_in [of n] by (subst str_nat.simps) simp
  next
    case False
    then show ?thesis using 1 digit_char_in [of n] by (subst str_nat.simps) simp
  qed
qed

lemma str_nat_not_nan: "str_nat n \<noteq> ''nan''"
proof
  assume "str_nat n = ''nan''"
  then have "CHR ''n'' \<in> set (str_nat n)" by simp
  with str_nat_digits [of n] show False by auto
qed

lemma str_int_not_nan: "str_int i \<noteq> ''nan''"
  using str_nat_not_nan by (simp add: str_int_def)

lemma mset_get_dummies: "mset (get_dummies df) = mset (concat (map cells df))"
  unfolding get_dummies_def by (induction df) auto

lemma set_get_dummies: "set (get_dummies df) = (\<Union>e \<in> set df. set (cells e))"
  unfolding get_dummies_def by (induction df) auto

lemma cells_prefix: "(l, x) \<in> set (cells (col, v)) \<Longrightarrow> prefix col l"
  by (cases v) (auto split: if_splits)

lemma distinct_cells: "distinct (map fst (cells (col, v))) \<longleftrightarrow> v \<noteq> PStr ''nan''"
  by (cases v) (auto simp: str_int_not_nan)

lemma prefix_comparable: "prefix a l \<Longrightarrow> prefix b l \<Longrightarrow> prefix a b \<or> prefix b a"
  by (metis prefix_same_cases)

lemma cells_disjoint:
  assumes "\<not> prefix a b" "\<not> prefix b a"
  shows "set (map fst (cells (a, v))) \<inter> set (map fst (cells (b, w))) = {}"
proof -
  have False if "l \<in> set (map fst (cells (a, v)))" "l \<in> set (map fst (cells (b, w)))" for l
  proof -
    from that obtain x y where "(l, x) \<in> set (cells (a, v))" "(l, y) \<in> set (cells (b, w))"
      by auto
    then have "prefix a l" "prefix b l" by (blast dest: cells_prefix)+
    with assms show False using prefix_comparable by blast
  qed
  then show ?thesis by blast
qed

lemma distinct_concat_cells:
  "prefix_free (map fst df) \<Longrightarrow>
   distinct (map fst (concat (map cells df))) \<longleftrightarrow> (\<forall>col. (col, PStr ''nan'') \<notin> set df)"
proof (induction df)
  case Nil
  then show ?case by simp
next
  case (Cons e df)
  obtain a v where e: "e = (a, v)" by (cases e)
  from Cons.prems have pf: "prefix_free (map fst df)"
    and nb: "\<forall>y \<in> set (map fst df). \<not> prefix a y \<and> \<not> prefix y a"
    by (simp_all add: e)
  have disj: "set (map fst (cells (a, v))) \<inter> set (map fst (concat (map cells df))) = {}"
  proof -
    have "set (map fst (cells (a, v))) \<inter> set (map fst (cells (b, w))) = {}"
      if "(b, w) \<in> set df" for b w
      using that nb cells_disjoint [of a b v w] by force
    then show ?thesis by (auto simp del: cells.simps)
  qed
  have "a \<noteq> b" if "(b, w) \<in> set df" for b w
    using that nb by force
  then have here: "(\<forall>col. (col, PStr ''nan'') \<notin> set (e # df)) \<longleftrightarrow>
      v \<noteq> PStr ''nan'' \<and> (\<forall>col. (col, PStr ''nan'') \<notin> set df)"
    by (auto simp: e)
  show ?case
    unfolding here using Cons.IH [OF pf] disj distinct_cells [of a v]
    by (simp add: e del: cells.simps)
qed

lemma distinct_get_dummies:
  assumes "prefix_free (map fst df)"
  shows "distinct (map fst (get_dummies df)) \<longleftrightarrow> (\<forall>col. (col, PStr ''nan'') \<notin> set df)"
proof -
  have "mset (map fst (get_dummies df)) = mset (map fst (concat (map cells df)))"
    using mset_get_dummies [of df] by (metis mset_map)
  then have "distinct (map fst (get_dummies df)) = distinct (map fst (concat (map cells df)))"
    by (rule mset_eq_imp_distinct_iff)
  with distinct_concat_cells [OF assms] show ?thesis by simp
qed

lemma prefix_free_dict: "prefix_free (map fst (bools_to_ints (dict c)))"
  by (simp add: dict_def bools_to_ints_def)

section \<open>The Aligner\<close>

lemma reindex_own_labels:
  "distinct (map fst df) \<Longrightarrow>
   map (\<lambda>c. (c, case map_of df c of Some v \<Rightarrow> v | None \<Rightarrow> PInt 0)) (map fst df) = df"
proof (induction df)
  case Nil
  then show ?case by simp
next
  case (Cons e df)
  obtain k v where e: "e = (k, v)" by (cases e)
  from Cons.prems have k: "k \<notin> fst ` set df" and d: "distinct (map fst df)"
    by (simp_all add: e)
  have "map (\<lambda>c. (c, case map_of (e # df) c of Some v \<Rightarrow> v | None \<Rightarrow> PInt 0)) (map fst df)
      = map (\<lambda>c. (c, case map_of df c of Some v \<Rightarrow> v | None \<Rightarrow> PInt 0)) (map fst df)"
    using k by (intro map_cong) (auto simp: e)
  with Cons.IH [OF d] show ?case by (simp add: e)
qed

lemma reindex_distinct:
  assumes "distinct (map fst df)"
  shows "reindex df columns = Inr (zip columns (align_spec (map_of df) columns))"
proof -
  have z: "zip columns (align_spec (map_of df) columns)
      = map (\<lambda>c. (c, case map_of df c of Some v \<Rightarrow> v | None \<Rightarrow> PInt 0)) columns"
    by (simp add: align_spec_def zip_map2 zip_same_conv_map)
  show ?thesis
  proof (cases "map fst df = columns")
    case True
    with reindex_own_labels [OF assms] show ?thesis by (simp add: reindex_def z)
  next
    case False
    with assms show ?thesis by (simp add: reindex_def z)
  qed
qed

lemma reindex_labels: "reindex df columns = Inr aligned \<Longrightarrow> map fst aligned = columns"
  by (auto simp: reindex_def comp_def split: if_splits)

text \<open>
  On a frame whose labels are all different \<^verbatim>\<open>reindex\<close> does what the specification's
  Aligner does on the map the frame stands for: it raises nothing and returns the schema's
  columns in schema order, at each schema position the frame's value for that name when
  the name is a label of the frame, and 0 when it is not.
\<close>

lemma reindex_unique_labels:
  assumes "distinct (map fst features)"
  shows "reindex features columns = Inr (zip columns (align_spec (map_of features) columns))
    \<and> length (align_spec (map_of features) columns) = length columns
    \<and> (\<forall>i < length columns. \<forall>v. (columns ! i, v) \<in> set features \<longrightarrow>
          align_spec (map_of features) columns ! i = v)
    \<and> (\<forall>i < length columns. columns ! i \<notin> fst ` set features \<longrightarrow>
          align_spec (map_of features) columns ! i = PInt 0)"
proof (intro conjI allI impI)
  show "reindex features columns = Inr (zip columns (align_spec (map_of features) columns))"
    using assms by (rule reindex_distinct)
  show "length (align_spec (map_of features) columns) = length columns"
    by (simp add: align_spec_def)
next
  fix i v
  assume "i < length columns" "(columns ! i, v) \<in> set features"
  with assms show "align_spec (map_of features) columns ! i = v"
    by (simp add: align_spec_def)
next
  fix i
  assume "i < length columns" "columns ! i \<notin> fst ` set features"
  then show "align_spec (map_of features) columns ! i = PInt 0"
    by (simp add: align_spec_def map_of_eq_None_iff [THEN iffD2])
qed

lemma reindex_unique_labels_example:
  "distinct (map fst [(''region_North'', PInt 1), (''region_nan'', PInt 0), (''honour_1to5'', PInt 3)])
   \<and> reindex [(''region_North'', PInt 1), (''region_nan'', PInt 0), (''honour_1to5'', PInt 3)]
        [''honour_1to5'', ''region_South'', ''region_North'']
      = Inr [(''honour_1to5'', PInt 3), (''region_South'', PInt 0), (''region_North'', PInt 1)]"
  using reindex_unique_labels [of "[(''region_North'', PInt 1), (''region_nan'', PInt 0), (''honour_1to5'', PInt 3)]"
      "[''honour_1to5'', ''region_South'', ''region_North'']"]
  by (simp add: align_spec_def)

text \<open>
  Claim C6 (alignment idempotence). For every schema, a vector already in schema order,
  read as a frame labelled by the schema's names, is returned unchanged by \<^verbatim>\<open>reindex\<close>
  against that schema; and whatever \<^verbatim>\<open>reindex\<close> returns for a frame and a schema, it
  returns the same when applied to that result again.
\<close>

theorem align_idempotent:
  "(length vector = length columns \<longrightarrow>
      reindex (zip columns vector) columns = Inr (zip columns vector))
   \<and> (reindex df columns = Inr aligned \<longrightarrow> reindex aligned columns = Inr aligned)"
proof (intro conjI impI)
  assume "length vector = length columns"
  then show "reindex (zip columns vector) columns = Inr (zip columns vector)"
    by (simp add: reindex_def)
next
  assume "reindex df columns = Inr aligned"
  then have "map fst aligned = columns" by (rule reindex_labels)
  then show "reindex aligned columns = Inr aligned" by (simp add: reindex_def)
qed

theorem align_idempotent_witness:
  "length [PInt 3, PInt 0, PInt 1] = length [''honour_1to5'', ''region_South'', ''region_North'']
   \<and> reindex (zip [''honour_1to5'', ''region_South'', ''region_North''] [PInt 3, PInt 0, PInt 1])
        [''honour_1to5'', ''region_South'', ''region_North'']
      = Inr [(''honour_1to5'', PInt 3), (''region_South'', PInt 0), (''region_North'', PInt 1)]
   \<and> reindex [(''region_North'', PInt 1), (''honour_1to5'', PInt 3)] [''honour_1to5'', ''region_South'']
      = Inr [(''honour_1to5'', PInt 3), (''region_South'', PInt 0)]
   \<and> reindex [(''honour_1to5'', PInt 3), (''region_South'', PInt 0)] [''honour_1to5'', ''region_South'']
      = Inr [(''honour_1to5'', PInt 3), (''region_South'', PInt 0)]"
  using align_idempotent [of "[PInt 3, PInt 0, PInt 1]" "[''honour_1to5'', ''region_South'', ''region_North'']"]
    align_idempotent [of "[]" "[''honour_1to5'', ''region_South'']"
      "[(''region_North'', PInt 1), (''honour_1to5'', PInt 3)]"
      "[(''honour_1to5'', PInt 3), (''region_South'', PInt 0)]"]
  by (simp add: reindex_def)

section \<open>The service before it is ready\<close>

lemma predict_unset:
  "model g = None \<or> feature_columns g = None \<Longrightarrow>
   predict g character = ([], Inl (HTTPException 503 ''Model not loaded. Please check server logs.''))"
  by (auto simp: predict_def split: option.splits)

text \<open>
  Claim C3 (not-ready guarantee). Whenever the model or the list of feature columns is
  unset, \<^verbatim>\<open>predict\<close> raises the \<^verbatim>\<open>HTTPException\<close> with status 503 for every request, and
  has performed no step before it: no encoding, no alignment, no inference.
\<close>

theorem not_ready_guarantee:
  assumes "model g = None \<or> feature_columns g = None"
  shows "predict g character
    = ([], Inl (HTTPException 503 ''Model not loaded. Please check server logs.''))"
  using assms by (rule predict_unset)

theorem not_ready_guarantee_witness:
  "(model \<lparr>model = Some stark_model, feature_columns = None\<rparr> = None
      \<or> feature_columns \<lparr>model = Some stark_model, feature_columns = None\<rparr> = None)
   \<and> predict \<lparr>model = Some stark_model, feature_columns = None\<rparr> example_character
      = ([], Inl (HTTPException 503 ''Model not loaded. Please check server logs.''))"
  using not_ready_guarantee [of "\<lparr>model = Some stark_model, feature_columns = None\<rparr>" example_character]
  by simp

section \<open>The encoded frame\<close>

lemma get_dummies_plain:
  "(k, v) \<in> set df \<Longrightarrow> \<not> object_dtype v \<Longrightarrow> (k, v) \<in> set (get_dummies df)"
  by (auto simp: get_dummies_def)

lemma get_dummies_object:
  "(k, v) \<in> set df \<Longrightarrow> object_dtype v \<Longrightarrow> set (dummies (k, v)) \<subseteq> set (get_dummies df)"
  by (auto simp: get_dummies_def simp del: dummies.simps)

lemma in_bools_to_ints: "(k, v) \<in> set data \<Longrightarrow> (k, bool_to_int v) \<in> set (bools_to_ints data)"
  by (auto simp: bools_to_ints_def intro!: image_eqI [where x = "(k, v)"])

lemma in_encode_plain:
  "(k, v) \<in> set (dict c) \<Longrightarrow> \<not> object_dtype (bool_to_int v) \<Longrightarrow> (k, bool_to_int v) \<in> set (encode c)"
  unfolding encode_def by (rule get_dummies_plain [OF in_bools_to_ints])

lemma in_encode_level:
  assumes "(k, PStr s) \<in> set (dict c)"
  shows "(k @ ''_'' @ s, PInt 1) \<in> set (encode c) \<and> (k @ ''_nan'', PInt 0) \<in> set (encode c)"
  using get_dummies_object [OF in_bools_to_ints [OF assms]] by (simp add: encode_def)

lemma in_encode_none:
  assumes "(k, PNone) \<in> set (dict c)"
  shows "(k @ ''_nan'', PInt 1) \<in> set (encode c)"
  using get_dummies_object [OF in_bools_to_ints [OF assms]] by (simp add: encode_def)

lemma opt_bool_not_str: "bool_to_int (opt_bool b) \<noteq> PStr s"
  by (cases b) (simp_all add: opt_bool_def)

lemma opt_float_not_str: "bool_to_int (opt_float x) \<noteq> PStr s"
  by (cases x) (simp_all add: opt_float_def)


lemma snd_dict:
  "snd ` set (bools_to_ints (dict c)) =
     {PStr (region c), PStr (primary_role c), PStr (alignment c), PStr (status c), PStr (species c),
      PInt (honour_1to5 c), PInt (ruthlessness_1to5 c), PInt (intelligence_1to5 c),
      PInt (combat_skill_1to5 c), PInt (diplomacy_1to5 c), PInt (leadership_1to5 c),
      bool_to_int (opt_bool (trait_strategic c)), bool_to_int (opt_bool (trait_impulsive c)),
      bool_to_int (opt_bool (trait_charismatic c)), bool_to_int (opt_bool (trait_vengeful c)),
      PInt (if trait_loyal c then 1 else 0), PInt (if trait_scheming c then 1 else 0),
      bool_to_int (opt_float (feature_set_version c))}"
  by (simp add: dict_def bools_to_ints_def)

lemma str_nan_in_dict:
  "(\<forall>col. (col, PStr ''nan'') \<notin> set (bools_to_ints (dict c))) \<longleftrightarrow> no_literal_nan c"
proof -
  have "(\<forall>col. (col, PStr ''nan'') \<notin> set (bools_to_ints (dict c)))
      \<longleftrightarrow> PStr ''nan'' \<notin> snd ` set (bools_to_ints (dict c))"
    by force
  also have "\<dots> \<longleftrightarrow> no_literal_nan c"
    unfolding snd_dict no_literal_nan_def
    using opt_bool_not_str [of _ "''nan''"] opt_float_not_str [of _ "''nan''"]
    by (simp add: eq_commute) 
  finally show ?thesis .
qed


lemma distinct_encode: "distinct (map fst (encode c)) \<longleftrightarrow> no_literal_nan c"
  unfolding encode_def using distinct_get_dummies [OF prefix_free_dict] str_nan_in_dict by simp

lemma reindex_encode_ok:
  "no_literal_nan c \<Longrightarrow>
   reindex (encode c) cols = Inr (zip cols (align_spec (map_of (encode c)) cols))"
  by (simp add: reindex_distinct distinct_encode)

lemma reindex_encode_nan:
  assumes "\<not> no_literal_nan c" "distinct cols"
  shows "reindex (encode c) cols = Inl (ValueError ''cannot reindex on an axis with duplicate labels'')"
proof -
  from assms(1) have nd: "\<not> distinct (map fst (encode c))" by (simp add: distinct_encode)
  with assms(2) have "map fst (encode c) \<noteq> cols" by auto
  with nd show ?thesis by (simp add: reindex_def)
qed

lemma encode_example:
  "encode example_character =
     [(''honour_1to5'', PInt 3), (''ruthlessness_1to5'', PInt 2), (''intelligence_1to5'', PInt 4),
      (''combat_skill_1to5'', PInt 5), (''diplomacy_1to5'', PInt 1), (''leadership_1to5'', PInt 4),
      (''trait_strategic'', PInt 1), (''trait_impulsive'', PInt 0), (''trait_charismatic'', PInt 0),
      (''trait_vengeful'', PInt 0), (''trait_loyal'', PInt 1), (''trait_scheming'', PInt 0),
      (''feature_set_version'', PFloat 1),
      (''region_North'', PInt 1), (''region_nan'', PInt 0),
      (''primary_role_Commander'', PInt 1), (''primary_role_nan'', PInt 0),
      (''alignment_Lawful'', PInt 1), (''alignment_nan'', PInt 0),
      (''status_Alive'', PInt 1), (''status_nan'', PInt 0),
      (''species_Human'', PInt 1), (''species_nan'', PInt 0)]"
  by (simp add: encode_def get_dummies_def bools_to_ints_def dict_def example_character_def
      opt_bool_def opt_float_def native_int_def)


lemma in_encode_bool:
  "(k, PBool b) \<in> set (dict c) \<Longrightarrow> (k, PInt (if b then 1 else 0)) \<in> set (encode c)"
  using in_encode_plain [of k "PBool b" c] by (simp add: native_int_def)

text \<open>
  Claim C4 (Encoder correctness). In the encoded frame of a request, each trait that holds
  a boolean is the column of its own name with value 1 for true and 0 for false; each
  integer field that pandas stores as a 64-bit integer, and the float field when it holds a
  number, is the column of its own name with its value unchanged; and each of the five
  categorical fields gives the indicator column named field, underscore, value with
  value 1, together with the column named field, underscore, \<^verbatim>\<open>nan\<close> with value 0. When
  no categorical value is the word \<^verbatim>\<open>nan\<close> itself the labels of the frame are all
  different, so that the frame is a map.
\<close>

theorem encoder_correct:
  "((''trait_loyal'', PInt (if trait_loyal c then 1 else 0)) \<in> set (encode c)
    \<and> (''trait_scheming'', PInt (if trait_scheming c then 1 else 0)) \<in> set (encode c))
   \<and> ((\<forall>b. trait_strategic c = Some b \<longrightarrow>
          (''trait_strategic'', PInt (if b then 1 else 0)) \<in> set (encode c))
    \<and> (\<forall>b. trait_impulsive c = Some b \<longrightarrow>
          (''trait_impulsive'', PInt (if b then 1 else 0)) \<in> set (encode c))
    \<and> (\<forall>b. trait_charismatic c = Some b \<longrightarrow>
          (''trait_charismatic'', PInt (if b then 1 else 0)) \<in> set (encode c))
    \<and> (\<forall>b. trait_vengeful c = Some b \<longrightarrow>
          (''trait_vengeful'', PInt (if b then 1 else 0)) \<in> set (encode c)))
   \<and> ((native_int (honour_1to5 c) \<longrightarrow>
          (''honour_1to5'', PInt (honour_1to5 c)) \<in> set (encode c))
    \<and> (native_int (ruthlessness_1to5 c) \<longrightarrow>
          (''ruthlessness_1to5'', PInt (ruthlessness_1to5 c)) \<in> set (encode c))
    \<and> (native_int (intelligence_1to5 c) \<longrightarrow>
          (''intelligence_1to5'', PInt (intelligence_1to5 c)) \<in> set (encode c))
    \<and> (native_int (combat_skill_1to5 c) \<longrightarrow>
          (''combat_skill_1to5'', PInt (combat_skill_1to5 c)) \<in> set (encode c))
    \<and> (native_int (diplomacy_1to5 c) \<longrightarrow>
          (''diplomacy_1to5'', PInt (diplomacy_1to5 c)) \<in> set (encode c))
    \<and> (native_int (leadership_1to5 c) \<longrightarrow>
          (''leadership_1to5'', PInt (leadership_1to5 c)) \<in> set (encode c))
    \<and> (\<forall>x. feature_set_version c = Some x \<longrightarrow>
          (''feature_set_version'', PFloat x) \<in> set (encode c)))
   \<and> ((''region_'' @ region c, PInt 1) \<in> set (encode c)
      \<and> (''region_nan'', PInt 0) \<in> set (encode c)
    \<and> (''primary_role_'' @ primary_role c, PInt 1) \<in> set (encode c)
      \<and> (''primary_role_nan'', PInt 0) \<in> set (encode c)
    \<and> (''alignment_'' @ alignment c, PInt 1) \<in> set (encode c)
      \<and> (''alignment_nan'', PInt 0) \<in> set (encode c)
    \<and> (''status_'' @ status c, PInt 1) \<in> set (encode c)
      \<and> (''status_nan'', PInt 0) \<in> set (encode c)
    \<and> (''species_'' @ species c, PInt 1) \<in> set (encode c)
      \<and> (''species_nan'', PInt 0) \<in> set (encode c))
   \<and> (no_literal_nan c \<longrightarrow> distinct (map fst (encode c)))"
proof -
  have required: "(''trait_loyal'', PInt (if trait_loyal c then 1 else 0)) \<in> set (encode c)
      \<and> (''trait_scheming'', PInt (if trait_scheming c then 1 else 0)) \<in> set (encode c)"
    by (intro conjI in_encode_bool) (simp_all add: dict_def)
  have opt: "(k, opt_bool t) \<in> set (dict c) \<Longrightarrow> t = Some b \<Longrightarrow>
      (k, PInt (if b then 1 else 0)) \<in> set (encode c)" for k t b
    using in_encode_bool [of k b c] by (simp add: opt_bool_def)
  have optional:
    "(\<forall>b. trait_strategic c = Some b \<longrightarrow>
          (''trait_strategic'', PInt (if b then 1 else 0)) \<in> set (encode c))
    \<and> (\<forall>b. trait_impulsive c = Some b \<longrightarrow>
          (''trait_impulsive'', PInt (if b then 1 else 0)) \<in> set (encode c))
    \<and> (\<forall>b. trait_charismatic c = Some b \<longrightarrow>
          (''trait_charismatic'', PInt (if b then 1 else 0)) \<in> set (encode c))
    \<and> (\<forall>b. trait_vengeful c = Some b \<longrightarrow>
          (''trait_vengeful'', PInt (if b then 1 else 0)) \<in> set (encode c))"
  proof (intro conjI allI impI)
    fix b assume "trait_strategic c = Some b"
    then show "(''trait_strategic'', PInt (if b then 1 else 0)) \<in> set (encode c)"
      by (intro opt [of _ "trait_strategic c"]) (simp_all add: dict_def)
  next
    fix b assume "trait_impulsive c = Some b"
    then show "(''trait_impulsive'', PInt (if b then 1 else 0)) \<in> set (encode c)"
      by (intro opt [of _ "trait_impulsive c"]) (simp_all add: dict_def)
  next
    fix b assume "trait_charismatic c = Some b"
    then show "(''trait_charismatic'', PInt (if b then 1 else 0)) \<in> set (encode c)"
      by (intro opt [of _ "trait_charismatic c"]) (simp_all add: dict_def)
  next
    fix b assume "trait_vengeful c = Some b"
    then show "(''trait_vengeful'', PInt (if b then 1 else 0)) \<in> set (encode c)"
      by (intro opt [of _ "trait_vengeful c"]) (simp_all add: dict_def)
  qed
  have num: "(k, PInt i) \<in> set (dict c) \<Longrightarrow> native_int i \<Longrightarrow> (k, PInt i) \<in> set (encode c)"
    for k i
    using in_encode_plain [of k "PInt i" c] by simp
  have numeric:
    "(native_int (honour_1to5 c) \<longrightarrow>
          (''honour_1to5'', PInt (honour_1to5 c)) \<in> set (encode c))
    \<and> (native_int (ruthlessness_1to5 c) \<longrightarrow>
          (''ruthlessness_1to5'', PInt (ruthlessness_1to5 c)) \<in> set (encode c))
    \<and> (native_int (intelligence_1to5 c) \<longrightarrow>
          (''intelligence_1to5'', PInt (intelligence_1to5 c)) \<in> set (encode c))
    \<and> (native_int (combat_skill_1to5 c) \<longrightarrow>
          (''combat_skill_1to5'', PInt (combat_skill_1to5 c)) \<in> set (encode c))
    \<and> (native_int (diplomacy_1to5 c) \<longrightarrow>
          (''diplomacy_1to5'', PInt (diplomacy_1to5 c)) \<in> set (encode c))
    \<and> (native_int (leadership_1to5 c) \<longrightarrow>
          (''leadership_1to5'', PInt (leadership_1to5 c)) \<in> set (encode c))
    \<and> (\<forall>x. feature_set_version c = Some x \<longrightarrow>
          (''feature_set_version'', PFloat x) \<in> set (encode c))"
  proof (intro conjI allI impI)
    fix x assume "feature_set_version c = Some x"
    then show "(''feature_set_version'', PFloat x) \<in> set (encode c)"
      using in_encode_plain [of "''feature_set_version''" "PFloat x" c]
      by (simp add: dict_def opt_float_def)
  qed (rule num, simp add: dict_def, assumption)+
  have categorical:
    "(''region_'' @ region c, PInt 1) \<in> set (encode c)
      \<and> (''region_nan'', PInt 0) \<in> set (encode c)
    \<and> (''primary_role_'' @ primary_role c, PInt 1) \<in> set (encode c)
      \<and> (''primary_role_nan'', PInt 0) \<in> set (encode c)
    \<and> (''alignment_'' @ alignment c, PInt 1) \<in> set (encode c)
      \<and> (''alignment_nan'', PInt 0) \<in> set (encode c)
    \<and> (''status_'' @ status c, PInt 1) \<in> set (encode c)
      \<and> (''status_nan'', PInt 0) \<in> set (encode c)
    \<and> (''species_'' @ species c, PInt 1) \<in> set (encode c)
      \<and> (''species_nan'', PInt 0) \<in> set (encode c)"
    using in_encode_level [of "''region''" "region c" c]
      in_encode_level [of "''primary_role''" "primary_role c" c]
      in_encode_level [of "''alignment''" "alignment c" c]
      in_encode_level [of "''status''" "status c" c]
      in_encode_level [of "''species''" "species c" c]
    by (simp add: dict_def)
  from required optional numeric categorical distinct_encode [of c] show ?thesis
    by blast
qed


theorem encoder_correct_witness:
  "trait_strategic example_character = Some True
   \<and> trait_impulsive example_character = Some False
   \<and> trait_charismatic example_character = Some False
   \<and> trait_vengeful example_character = Some False
   \<and> native_int (honour_1to5 example_character)
   \<and> native_int (ruthlessness_1to5 example_character)
   \<and> native_int (intelligence_1to5 example_character)
   \<and> native_int (combat_skill_1to5 example_character)
   \<and> native_int (diplomacy_1to5 example_character)
   \<and> native_int (leadership_1to5 example_character)
   \<and> feature_set_version example_character = Some 1
   \<and> no_literal_nan example_character
   \<and> (''trait_strategic'', PInt 1) \<in> set (encode example_character)
   \<and> (''trait_impulsive'', PInt 0) \<in> set (encode example_character)
   \<and> (''trait_charismatic'', PInt 0) \<in> set (encode example_character)
   \<and> (''trait_vengeful'', PInt 0) \<in> set (encode example_character)
   \<and> (''honour_1to5'', PInt 3) \<in> set (encode example_character)
   \<and> (''ruthlessness_1to5'', PInt 2) \<in> set (encode example_character)
   \<and> (''intelligence_1to5'', PInt 4) \<in> set (encode example_character)
   \<and> (''combat_skill_1to5'', PInt 5) \<in> set (encode example_character)
   \<and> (''diplomacy_1to5'', PInt 1) \<in> set (encode example_character)
   \<and> (''leadership_1to5'', PInt 4) \<in> set (encode example_character)
   \<and> (''feature_set_version'', PFloat 1) \<in> set (encode example_character)
   \<and> distinct (map fst (encode example_character))"
  using encoder_correct [of example_character]
  by (auto simp add: example_character_def native_int_def no_literal_nan_def)

section \<open>Inference\<close>

lemma no_literal_nan_example: "no_literal_nan example_character"
  by (simp add: no_literal_nan_def example_character_def)

lemma reindex_example: "reindex (encode example_character) example_schema = Inr example_aligned"
  by (simp add: reindex_encode_ok no_literal_nan_example)
    (simp add: encode_example example_schema_def align_spec_def example_aligned_def)

lemma predict_reaches_inference:
  assumes "model g = Some m" "feature_columns g = Some cols"
    "reindex (encode c) cols = Inr df_aligned"
  shows "predict g c = ([Encode, Align, Infer], infer m df_aligned)"
  using assms by (simp add: predict_def)

lemma predict_reindex_raises:
  assumes "model g = Some m" "feature_columns g = Some cols"
    "reindex (encode c) cols = Inl e"
  shows "predict g c = ([Encode, Align], Inl e)"
  using assms by (simp add: predict_def)

lemma infer_steps:
  assumes "model g = Some m" "feature_columns g = Some cols"
    and "reindex (encode c) cols = Inr df_aligned"
  shows "fst (predict g c) = [Encode, Align, Infer]"
    and "snd (predict g c) = infer m df_aligned"
  by (simp_all add: predict_reaches_inference [OF assms])

text \<open>
  Claim C7 (prediction-failure handling). For every request that reaches inference, with
  a model that keeps the Predictor's contract on the aligned frame, the model is called
  once and never again. If the call raises, the request ends in the one
  \<^verbatim>\<open>HTTPException\<close> with status 500 whose detail is \<^verbatim>\<open>Prediction failed: \<close> followed by
  the text of the exception; otherwise it ends in the one label, the first prediction. The
  answer is a value of a sum type: an error or a label, never both and never neither.
\<close>

theorem prediction_outcome:
  assumes "model g = Some m" "feature_columns g = Some cols"
    and "reindex (encode c) cols = Inr df_aligned"
    and "predictor_contract (m df_aligned)"
  shows "fst (predict g c) = [Encode, Align, Infer]
    \<and> (\<forall>e. m df_aligned = Inl (Exception e) \<longrightarrow>
          snd (predict g c) = Inl (HTTPException 500 (''Prediction failed: '' @ e)))
    \<and> (\<forall>p. m df_aligned = Inr (Inr p) \<longrightarrow>
          snd (predict g c) = Inr [(''house_affiliation'', p)])
    \<and> (isl (m df_aligned) \<longrightarrow>
          (\<exists>e. snd (predict g c) = Inl (HTTPException 500 (''Prediction failed: '' @ e))))
    \<and> (\<not> isl (m df_aligned) \<longrightarrow>
          (\<exists>p. snd (predict g c) = Inr [(''house_affiliation'', p)]))"
proof -
  note s = infer_steps [OF assms(1-3)]
  have raises: "isl (m df_aligned) \<Longrightarrow> \<exists>e. m df_aligned = Inl (Exception e)"
    using assms(4) by (cases "m df_aligned" rule: predictor_contract.cases) simp_all
  have returns: "\<not> isl (m df_aligned) \<Longrightarrow> \<exists>p. m df_aligned = Inr (Inr p)"
    using assms(4) by (cases "m df_aligned" rule: predictor_contract.cases) simp_all
  have a: "\<forall>e. m df_aligned = Inl (Exception e) \<longrightarrow>
      snd (predict g c) = Inl (HTTPException 500 (''Prediction failed: '' @ e))"
    by (simp add: s infer_def)
  have b: "\<forall>p. m df_aligned = Inr (Inr p) \<longrightarrow>
      snd (predict g c) = Inr [(''house_affiliation'', p)]"
    by (simp add: s infer_def)
  from s(1) a b raises returns show ?thesis by blast
qed

theorem prediction_outcome_witness:
  "model (ready_globals raising_model) = Some raising_model
   \<and> feature_columns (ready_globals raising_model) = Some example_schema
   \<and> reindex (encode example_character) example_schema = Inr example_aligned
   \<and> predictor_contract (raising_model example_aligned)
   \<and> raising_model example_aligned
      = Inl (Exception ''X has 7 features, but the classifier is expecting 40'')
   \<and> predict (ready_globals raising_model) example_character
      = ([Encode, Align, Infer],
         Inl (HTTPException 500
           ''Prediction failed: X has 7 features, but the classifier is expecting 40''))
   \<and> predictor_contract (stark_model example_aligned)
   \<and> stark_model example_aligned = Inr (Inr ''Stark'')
   \<and> predict (ready_globals stark_model) example_character
      = ([Encode, Align, Infer], Inr [(''house_affiliation'', ''Stark'')])"
  using prediction_outcome [of "ready_globals raising_model" raising_model example_schema
      example_character example_aligned]
    prediction_outcome [of "ready_globals stark_model" stark_model example_schema
      example_character example_aligned]
    reindex_example
  by (simp add: ready_globals_def raising_model_def stark_model_def prod_eq_iff)

text \<open>
  Outside that contract the handler still decides the answer. An object whose call returns
  something without an entry 0 ends in the status 500 with the text of that read's
  exception; an exception that is no \<^verbatim>\<open>Exception\<close> passes the handler.
\<close>

lemma prediction_without_first_entry:
  assumes "model g = Some m" "feature_columns g = Some cols"
    and "reindex (encode c) cols = Inr df_aligned"
    and "m df_aligned = Inr (Inl (Exception e))"
  shows "predict g c
    = ([Encode, Align, Infer], Inl (HTTPException 500 (''Prediction failed: '' @ e)))"
  using assms by (simp add: predict_reaches_inference infer_def)

lemma base_exception_passes_handler:
  assumes "model g = Some m" "feature_columns g = Some cols"
    and "reindex (encode c) cols = Inr df_aligned"
    and "m df_aligned = Inl (BaseException e)"
  shows "predict g c = ([Encode, Align, Infer], Inl (Uncaught e))"
  using assms by (simp add: predict_reaches_inference infer_def)

lemma outside_contract_examples:
  "predict (ready_globals silent_model) example_character
     = ([Encode, Align, Infer],
        Inl (HTTPException 500
          ''Prediction failed: index 0 is out of bounds for axis 0 with size 0''))"
  "predict (ready_globals exiting_model) example_character
     = ([Encode, Align, Infer], Inl (Uncaught ''SystemExit''))"
  using prediction_without_first_entry [of "ready_globals silent_model" silent_model
      example_schema example_character example_aligned]
    base_exception_passes_handler [of "ready_globals exiting_model" exiting_model
      example_schema example_character example_aligned]
    reindex_example
  by (simp_all add: ready_globals_def silent_model_def exiting_model_def)


section \<open>Loading the artifacts\<close>

lemma load_incomplete:
  assumes "\<not> (model_exists a \<and> features_exists a \<and> (\<exists>m. joblib_load a = Inr m)
      \<and> (\<exists>cols. json_columns a = Inr cols))"
  shows "feature_columns (load_artifacts a initial_globals) = None"
  using assms by (auto simp: load_artifacts_def initial_globals_def Let_def split: sum.splits)

lemma load_model_only:
  assumes "model_exists a" "features_exists a" "joblib_load a = Inr m" "json_columns a = Inl e"
  shows "load_artifacts a initial_globals = \<lparr>model = Some m, feature_columns = None\<rparr>"
  using assms by (simp add: load_artifacts_def initial_globals_def)

lemma load_complete: "load_artifacts complete_artifacts initial_globals = ready_globals stark_model"
  by (simp add: load_artifacts_def initial_globals_def complete_artifacts_def ready_globals_def)

lemma predict_example:
  "predict (ready_globals stark_model) example_character
     = ([Encode, Align, Infer], Inr [(''house_affiliation'', ''Stark'')])"
  using predict_reaches_inference [of "ready_globals stark_model" stark_model example_schema
      example_character example_aligned] reindex_example
  by (simp add: ready_globals_def stark_model_def infer_def)

text \<open>
  Claim C9 (partial-load safety). Starting from the unset globals, when both files exist,
  the model loads and reading the schema raises, \<^verbatim>\<open>load_artifacts\<close> leaves the model set
  and the feature columns unset, and every request is answered with the status 503.
  More generally a request is answered with anything else only when both files existed
  and both loads succeeded.
\<close>

theorem partial_load_not_ready:
  "(model_exists a \<and> features_exists a \<and> joblib_load a = Inr m \<and> json_columns a = Inl e \<longrightarrow>
      model (load_artifacts a initial_globals) = Some m
      \<and> feature_columns (load_artifacts a initial_globals) = None
      \<and> predict (load_artifacts a initial_globals) c
          = ([], Inl (HTTPException 503 ''Model not loaded. Please check server logs.'')))
   \<and> (predict (load_artifacts a initial_globals) c
          \<noteq> ([], Inl (HTTPException 503 ''Model not loaded. Please check server logs.'')) \<longrightarrow>
      model_exists a \<and> features_exists a \<and> (\<exists>m'. joblib_load a = Inr m')
      \<and> (\<exists>cols. json_columns a = Inr cols))"
proof (intro conjI impI)
  assume h: "model_exists a \<and> features_exists a \<and> joblib_load a = Inr m \<and> json_columns a = Inl e"
  then have g: "load_artifacts a initial_globals = \<lparr>model = Some m, feature_columns = None\<rparr>"
    by (intro load_model_only) simp_all
  show "model (load_artifacts a initial_globals) = Some m"
    and "feature_columns (load_artifacts a initial_globals) = None"
    by (simp_all add: g)
  then show "predict (load_artifacts a initial_globals) c
      = ([], Inl (HTTPException 503 ''Model not loaded. Please check server logs.''))"
    by (intro predict_unset) simp
next
  assume served: "predict (load_artifacts a initial_globals) c
      \<noteq> ([], Inl (HTTPException 503 ''Model not loaded. Please check server logs.''))"
  have all: "model_exists a \<and> features_exists a \<and> (\<exists>m. joblib_load a = Inr m)
      \<and> (\<exists>cols. json_columns a = Inr cols)"
  proof (rule ccontr)
    assume "\<not> ?thesis"
    then have "feature_columns (load_artifacts a initial_globals) = None"
      by (rule load_incomplete)
    then have "predict (load_artifacts a initial_globals) c
        = ([], Inl (HTTPException 503 ''Model not loaded. Please check server logs.''))"
      by (intro predict_unset) simp
    with served show False by contradiction
  qed
  then show "model_exists a" "features_exists a" "\<exists>m'. joblib_load a = Inr m'"
    "\<exists>cols. json_columns a = Inr cols"
    by simp_all
qed

theorem partial_load_not_ready_witness:
  "model_exists partial_artifacts \<and> features_exists partial_artifacts
   \<and> joblib_load partial_artifacts = Inr stark_model
   \<and> json_columns partial_artifacts = Inl ''Expecting value: line 1 column 1 (char 0)''
   \<and> model (load_artifacts partial_artifacts initial_globals) = Some stark_model
   \<and> feature_columns (load_artifacts partial_artifacts initial_globals) = None
   \<and> predict (load_artifacts partial_artifacts initial_globals) example_character
      = ([], Inl (HTTPException 503 ''Model not loaded. Please check server logs.''))
   \<and> predict (load_artifacts complete_artifacts initial_globals) example_character
      \<noteq> ([], Inl (HTTPException 503 ''Model not loaded. Please check server logs.''))
   \<and> model_exists complete_artifacts \<and> features_exists complete_artifacts
   \<and> joblib_load complete_artifacts = Inr stark_model
   \<and> json_columns complete_artifacts = Inr example_schema"
proof -
  have served: "predict (load_artifacts complete_artifacts initial_globals) example_character
      \<noteq> ([], Inl (HTTPException 503 ''Model not loaded. Please check server logs.''))"
    by (simp add: load_complete predict_example)
  have partial: "model_exists partial_artifacts \<and> features_exists partial_artifacts
      \<and> joblib_load partial_artifacts = Inr stark_model
      \<and> json_columns partial_artifacts = Inl ''Expecting value: line 1 column 1 (char 0)''"
    by (simp add: partial_artifacts_def)
  from partial_load_not_ready [of partial_artifacts stark_model
      "''Expecting value: line 1 column 1 (char 0)''" example_character] partial
    partial_load_not_ready [of complete_artifacts stark_model "''''" example_character] served
  show ?thesis by (simp add: complete_artifacts_def)
qed

section \<open>A categorical value that reads \<^verbatim>\<open>nan\<close>\<close>

lemma not_distinct_positions:
  "\<not> distinct xs \<Longrightarrow> \<exists>i j. i < j \<and> j < length xs \<and> xs ! i = xs ! j"
  by (metis distinct_conv_nth linorder_neqE_nat order.strict_trans)

text \<open>
  Claim C10 (literal \<^verbatim>\<open>nan\<close> hazard). For every request in which some categorical field
  is the word \<^verbatim>\<open>nan\<close>, the encoded frame has two columns with the same label: the
  indicator of the value, with value 1, and the indicator of the missing value, with
  value 0, are both named field, underscore, \<^verbatim>\<open>nan\<close>. With the model and a schema of
  unique names loaded, the request then ends in the \<^verbatim>\<open>ValueError\<close> of \<^verbatim>\<open>reindex\<close>, raised
  after encoding and before inference: neither a label nor the status 500 of the
  prediction handler. The witness is such a request.
\<close>

theorem literal_nan_hazard:
  assumes "\<not> no_literal_nan c" and "distinct cols"
    and "model g = Some m" and "feature_columns g = Some cols"
  shows "(\<exists>i j. i < j \<and> j < length (encode c) \<and> fst (encode c ! i) = fst (encode c ! j))
    \<and> (region c = ''nan'' \<longrightarrow>
          (''region_nan'', PInt 1) \<in> set (encode c) \<and> (''region_nan'', PInt 0) \<in> set (encode c))
    \<and> (primary_role c = ''nan'' \<longrightarrow>
          (''primary_role_nan'', PInt 1) \<in> set (encode c)
          \<and> (''primary_role_nan'', PInt 0) \<in> set (encode c))
    \<and> (alignment c = ''nan'' \<longrightarrow>
          (''alignment_nan'', PInt 1) \<in> set (encode c)
          \<and> (''alignment_nan'', PInt 0) \<in> set (encode c))
    \<and> (status c = ''nan'' \<longrightarrow>
          (''status_nan'', PInt 1) \<in> set (encode c) \<and> (''status_nan'', PInt 0) \<in> set (encode c))
    \<and> (species c = ''nan'' \<longrightarrow>
          (''species_nan'', PInt 1) \<in> set (encode c) \<and> (''species_nan'', PInt 0) \<in> set (encode c))
    \<and> predict g c
        = ([Encode, Align], Inl (ValueError ''cannot reindex on an axis with duplicate labels''))"
proof -
  from assms(1) have "\<not> distinct (map fst (encode c))" by (simp add: distinct_encode)
  then obtain i j where "i < j" "j < length (map fst (encode c))"
    "map fst (encode c) ! i = map fst (encode c) ! j"
    using not_distinct_positions by blast
  then have dup: "\<exists>i j. i < j \<and> j < length (encode c) \<and> fst (encode c ! i) = fst (encode c ! j)"
    by (intro exI [of _ i] exI [of _ j]) simp
  have raise: "predict g c
      = ([Encode, Align], Inl (ValueError ''cannot reindex on an axis with duplicate labels''))"
    using assms by (intro predict_reindex_raises reindex_encode_nan)
  have fields:
    "(region c = ''nan'' \<longrightarrow>
          (''region_nan'', PInt 1) \<in> set (encode c) \<and> (''region_nan'', PInt 0) \<in> set (encode c))
    \<and> (primary_role c = ''nan'' \<longrightarrow>
          (''primary_role_nan'', PInt 1) \<in> set (encode c)
          \<and> (''primary_role_nan'', PInt 0) \<in> set (encode c))
    \<and> (alignment c = ''nan'' \<longrightarrow>
          (''alignment_nan'', PInt 1) \<in> set (encode c)
          \<and> (''alignment_nan'', PInt 0) \<in> set (encode c))
    \<and> (status c = ''nan'' \<longrightarrow>
          (''status_nan'', PInt 1) \<in> set (encode c) \<and> (''status_nan'', PInt 0) \<in> set (encode c))
    \<and> (species c = ''nan'' \<longrightarrow>
          (''species_nan'', PInt 1) \<in> set (encode c) \<and> (''species_nan'', PInt 0) \<in> set (encode c))"
    using in_encode_level [of "''region''" "region c" c]
      in_encode_level [of "''primary_role''" "primary_role c" c]
      in_encode_level [of "''alignment''" "alignment c" c]
      in_encode_level [of "''status''" "status c" c]
      in_encode_level [of "''species''" "species c" c]
    by (auto simp add: dict_def)
  from dup fields raise show ?thesis by blast
qed

theorem literal_nan_hazard_witness:
  "\<not> no_literal_nan nan_character \<and> distinct example_schema
   \<and> model (ready_globals stark_model) = Some stark_model
   \<and> feature_columns (ready_globals stark_model) = Some example_schema
   \<and> region nan_character = ''nan''
   \<and> (''region_nan'', PInt 1) \<in> set (encode nan_character)
   \<and> (''region_nan'', PInt 0) \<in> set (encode nan_character)
   \<and> predict (ready_globals stark_model) nan_character
       = ([Encode, Align], Inl (ValueError ''cannot reindex on an axis with duplicate labels''))"
proof -
  have h: "\<not> no_literal_nan nan_character" "distinct example_schema"
    "model (ready_globals stark_model) = Some stark_model"
    "feature_columns (ready_globals stark_model) = Some example_schema"
    "region nan_character = ''nan''"
    by (simp_all add: no_literal_nan_def nan_character_def example_schema_def ready_globals_def)
  from literal_nan_hazard [OF h(1-4)] h show ?thesis by blast
qed

text \<open>
  Claim C1 (Aligner correctness) does not hold of the code. The frame that line 84 receives
  for the request whose region is the word \<^verbatim>\<open>nan\<close> has the columns \<^verbatim>\<open>region_nan\<close> with
  value 1, \<^verbatim>\<open>region_nan\<close> with value 0 and \<^verbatim>\<open>honour_1to5\<close> with value 3. Against the
  schema of the one name \<^verbatim>\<open>honour_1to5\<close> the claim has every other column dropped without
  error and the output 3; \<^verbatim>\<open>reindex\<close> raises the \<^verbatim>\<open>ValueError\<close> instead.
\<close>

theorem aligner_failing_input:
  "(''region_nan'', PInt 1) \<in> set (encode nan_character)
   \<and> (''region_nan'', PInt 0) \<in> set (encode nan_character)
   \<and> (''honour_1to5'', PInt 3) \<in> set (encode nan_character)
   \<and> reindex (encode nan_character) [''honour_1to5'']
       = Inl (ValueError ''cannot reindex on an axis with duplicate labels'')"
proof -
  have "(''region'', PStr ''nan'') \<in> set (dict nan_character)"
    by (simp add: dict_def nan_character_def)
  from in_encode_level [OF this]
  have a: "(''region_nan'', PInt 1) \<in> set (encode nan_character)
      \<and> (''region_nan'', PInt 0) \<in> set (encode nan_character)"
    by simp
  have "(''honour_1to5'', PInt 3) \<in> set (dict nan_character)"
    by (simp add: dict_def nan_character_def example_character_def)
  from in_encode_plain [OF this]
  have b: "(''honour_1to5'', PInt 3) \<in> set (encode nan_character)"
    by (simp add: native_int_def)
  have c: "reindex (encode nan_character) [''honour_1to5'']
      = Inl (ValueError ''cannot reindex on an axis with duplicate labels'')"
    by (rule reindex_encode_nan) (simp_all add: no_literal_nan_def nan_character_def)
  from a b c show ?thesis by blast
qed

text \<open>
  Claim C2 (length invariant) does not hold of the code: for the request whose region is
  the word \<^verbatim>\<open>nan\<close> and a schema of seven names, encoding and aligning gives no vector at
  all but the \<^verbatim>\<open>ValueError\<close> of \<^verbatim>\<open>reindex\<close>.
\<close>

theorem length_invariant_failing_input:
  "region nan_character = ''nan'' \<and> length example_schema = 7
   \<and> reindex (encode nan_character) example_schema
       = Inl (ValueError ''cannot reindex on an axis with duplicate labels'')"
proof -
  have "reindex (encode nan_character) example_schema
      = Inl (ValueError ''cannot reindex on an axis with duplicate labels'')"
    by (rule reindex_encode_nan)
      (simp_all add: no_literal_nan_def nan_character_def example_schema_def)
  then show ?thesis by (simp add: nan_character_def example_schema_def)
qed

text \<open>
  For the requests without such a value the invariant holds: the aligned frame has one
  column per schema name.
\<close>

lemma aligned_length:
  assumes "no_literal_nan c"
  shows "\<exists>aligned. reindex (encode c) cols = Inr aligned \<and> length aligned = length cols"
  using reindex_encode_ok [OF assms, of cols] by (simp add: align_spec_def)

text \<open>
  Claim C5 (unknown-category policy) does not hold of the code: a request whose region
  matches no schema column, and whose species is the word \<^verbatim>\<open>nan\<close>, is not aligned with the
  region's group at 0 but ends in the \<^verbatim>\<open>ValueError\<close> of \<^verbatim>\<open>reindex\<close>.
\<close>

theorem unknown_category_failing_input:
  "region unknown_character = ''Atlantis'' \<and> ''region_Atlantis'' \<notin> set example_schema
   \<and> predict (ready_globals stark_model) unknown_character
       = ([Encode, Align], Inl (ValueError ''cannot reindex on an axis with duplicate labels''))"
proof -
  have "reindex (encode unknown_character) example_schema
      = Inl (ValueError ''cannot reindex on an axis with duplicate labels'')"
    by (rule reindex_encode_nan)
      (simp_all add: no_literal_nan_def unknown_character_def example_schema_def)
  then have "predict (ready_globals stark_model) unknown_character
      = ([Encode, Align], Inl (ValueError ''cannot reindex on an axis with duplicate labels''))"
    by (intro predict_reindex_raises [where m = stark_model and cols = example_schema])
      (simp_all add: ready_globals_def)
  then show ?thesis by (simp add: unknown_character_def example_schema_def)
qed


section \<open>The field \<^verbatim>\<open>feature_set_version\<close>\<close>

lemma map_of_agree:
  assumes "distinct (map fst xs)" "distinct (map fst ys)"
    and "\<And>v. (k, v) \<in> set xs \<longleftrightarrow> (k, v) \<in> set ys"
  shows "map_of xs k = map_of ys k"
proof (cases "map_of xs k")
  case None
  then have "k \<notin> fst ` set xs" by (simp add: map_of_eq_None_iff)
  with assms(3) have "k \<notin> fst ` set ys" by force
  then have "map_of ys k = None" by (simp add: map_of_eq_None_iff)
  with None show ?thesis by simp
next
  case (Some v)
  then have "(k, v) \<in> set xs" by (rule map_of_SomeD)
  with assms(3) have "(k, v) \<in> set ys" by simp
  with assms(2) Some show ?thesis by simp
qed

lemma align_spec_agree:
  assumes "distinct (map fst xs)" "distinct (map fst ys)"
    and "\<And>k v. k \<in> set cols \<Longrightarrow> (k, v) \<in> set xs \<longleftrightarrow> (k, v) \<in> set ys"
  shows "align_spec (map_of xs) cols = align_spec (map_of ys) cols"
  unfolding align_spec_def
proof (rule map_cong [OF refl])
  fix k assume "k \<in> set cols"
  then have "map_of xs k = map_of ys k"
    using assms by (intro map_of_agree) simp_all
  then show "(case map_of xs k of None \<Rightarrow> PInt 0 | Some v \<Rightarrow> v)
      = (case map_of ys k of None \<Rightarrow> PInt 0 | Some v \<Rightarrow> v)"
    by simp
qed

lemma dict_version:
  "dict c = butlast (dict c) @ [(''feature_set_version'', opt_float (feature_set_version c))]"
  by (simp add: dict_def)

lemma dict_other_fields: "butlast (dict (c\<lparr>feature_set_version := x\<rparr>)) = butlast (dict c)"
  by (simp add: dict_def)

lemma set_cells_version:
  "set (cells (''feature_set_version'', opt_float x))
     = (case x of None \<Rightarrow> {(''feature_set_version_nan'', PInt 1)}
        | Some v \<Rightarrow> {(''feature_set_version'', PFloat v)})"
  by (cases x) (simp_all add: opt_float_def)

lemma set_encode_version:
  "set (encode c) =
     (\<Union>e \<in> set (bools_to_ints (butlast (dict c))). set (cells e))
     \<union> set (cells (''feature_set_version'', opt_float (feature_set_version c)))"
proof -
  have b: "bool_to_int (opt_float (feature_set_version c)) = opt_float (feature_set_version c)"
    by (cases "feature_set_version c") (simp_all add: opt_float_def)
  have "set (encode c) = (\<Union>e \<in> set (bools_to_ints (butlast (dict c)
      @ [(''feature_set_version'', opt_float (feature_set_version c))])). set (cells e))"
    unfolding encode_def set_get_dummies using dict_version [of c] by simp
  then show ?thesis by (simp add: bools_to_ints_def b Un_commute del: cells.simps)
qed

lemma version_label_in_encode:
  "(case feature_set_version c of None \<Rightarrow> ''feature_set_version_nan''
      | Some v \<Rightarrow> ''feature_set_version'') \<in> set (map fst (encode c))"
  unfolding set_map set_encode_version set_cells_version
  by (cases "feature_set_version c") simp_all

lemma no_literal_nan_version: "no_literal_nan (c\<lparr>feature_set_version := x\<rparr>) = no_literal_nan c"
  by (simp add: no_literal_nan_def)

lemma reindex_other:
  "map fst df \<noteq> cols \<Longrightarrow>
   reindex df cols =
     (if \<not> distinct (map fst df)
      then Inl (ValueError ''cannot reindex on an axis with duplicate labels'')
      else Inr (zip cols (align_spec (map_of df) cols)))"
  by (simp add: reindex_distinct) (simp add: reindex_def)

text \<open>
  Claim C8 (noninterference of \<^verbatim>\<open>feature_set_version\<close>), as amended. The field is a
  column of the encoded frame like any other, and \<^verbatim>\<open>reindex\<close> keeps it when the schema
  names it. For every two requests that differ only in that field, and every schema that
  has no column named \<^verbatim>\<open>feature_set_version\<close> (and, when one of the two requests holds
  \<open>None\<close> there, no column named \<^verbatim>\<open>feature_set_version_nan\<close> either), aligning the two
  encodings gives the same result, and so does the whole request with any model.
\<close>

theorem version_noninterference:
  assumes "''feature_set_version'' \<notin> set cols"
    and "feature_set_version c = None \<or> x = None \<longrightarrow> ''feature_set_version_nan'' \<notin> set cols"
  shows "reindex (encode (c\<lparr>feature_set_version := x\<rparr>)) cols = reindex (encode c) cols
    \<and> (feature_columns g = Some cols \<longrightarrow> predict g (c\<lparr>feature_set_version := x\<rparr>) = predict g c)"
proof -
  let ?c' = "c\<lparr>feature_set_version := x\<rparr>"
  have other: "map fst (encode c) \<noteq> cols"
  proof
    assume "map fst (encode c) = cols"
    with version_label_in_encode [of c]
    have "(case feature_set_version c of None \<Rightarrow> ''feature_set_version_nan''
        | Some v \<Rightarrow> ''feature_set_version'') \<in> set cols"
      by simp
    with assms show False by (cases "feature_set_version c") simp_all
  qed
  have other': "map fst (encode ?c') \<noteq> cols"
  proof
    assume "map fst (encode ?c') = cols"
    with version_label_in_encode [of ?c']
    have "(case x of None \<Rightarrow> ''feature_set_version_nan''
        | Some v \<Rightarrow> ''feature_set_version'') \<in> set cols"
      by simp
    with assms show False by (cases x) simp_all
  qed
  have same: "(k, v) \<in> set (encode ?c') \<longleftrightarrow> (k, v) \<in> set (encode c)" if "k \<in> set cols" for k v
  proof -
    have "(k, v) \<notin> set (cells (''feature_set_version'', opt_float (feature_set_version c)))"
      using that assms unfolding set_cells_version
      by (cases "feature_set_version c") auto
    moreover have "(k, v) \<notin> set (cells (''feature_set_version'', opt_float x))"
      using that assms unfolding set_cells_version by (cases x) auto
    ultimately show ?thesis
      unfolding set_encode_version [of c] set_encode_version [of ?c'] dict_other_fields
      by simp
  qed
  have eq: "reindex (encode ?c') cols = reindex (encode c) cols"
  proof (cases "no_literal_nan c")
    case True
    then have d: "distinct (map fst (encode c))" "distinct (map fst (encode ?c'))"
      by (simp_all add: distinct_encode no_literal_nan_version)
    then have "align_spec (map_of (encode ?c')) cols = align_spec (map_of (encode c)) cols"
      using same by (intro align_spec_agree) simp_all
    with d show ?thesis by (simp add: reindex_distinct)
  next
    case False
    then have "\<not> distinct (map fst (encode c))" "\<not> distinct (map fst (encode ?c'))"
      by (simp_all add: distinct_encode no_literal_nan_version)
    with other other' show ?thesis by (simp add: reindex_other)
  qed
  then have "predict g ?c' = predict g c" if "feature_columns g = Some cols"
    using that by (simp add: predict_def Let_def split: option.splits)
  with eq show ?thesis by simp
qed


lemma encode_example_version:
  "encode (example_character\<lparr>feature_set_version := Some 2\<rparr>) =
     [(''honour_1to5'', PInt 3), (''ruthlessness_1to5'', PInt 2), (''intelligence_1to5'', PInt 4),
      (''combat_skill_1to5'', PInt 5), (''diplomacy_1to5'', PInt 1), (''leadership_1to5'', PInt 4),
      (''trait_strategic'', PInt 1), (''trait_impulsive'', PInt 0), (''trait_charismatic'', PInt 0),
      (''trait_vengeful'', PInt 0), (''trait_loyal'', PInt 1), (''trait_scheming'', PInt 0),
      (''feature_set_version'', PFloat 2),
      (''region_North'', PInt 1), (''region_nan'', PInt 0),
      (''primary_role_Commander'', PInt 1), (''primary_role_nan'', PInt 0),
      (''alignment_Lawful'', PInt 1), (''alignment_nan'', PInt 0),
      (''status_Alive'', PInt 1), (''status_nan'', PInt 0),
      (''species_Human'', PInt 1), (''species_nan'', PInt 0)]"
  by (simp add: encode_def get_dummies_def bools_to_ints_def dict_def example_character_def
      opt_bool_def opt_float_def native_int_def)

lemma reindex_version_1:
  "reindex (encode example_character) version_schema
     = Inr [(''honour_1to5'', PInt 3), (''feature_set_version'', PFloat 1)]"
  by (simp add: reindex_encode_ok no_literal_nan_example)
    (simp add: encode_example version_schema_def align_spec_def)

lemma reindex_version_2:
  "reindex (encode (example_character\<lparr>feature_set_version := Some 2\<rparr>)) version_schema
     = Inr [(''honour_1to5'', PInt 3), (''feature_set_version'', PFloat 2)]"
  by (simp add: reindex_encode_ok no_literal_nan_example no_literal_nan_version)
    (simp add: encode_example_version version_schema_def align_spec_def)

text \<open>
  Claim C8 as first stated fails for a schema that names the field: two requests that
  differ only in \<^verbatim>\<open>feature_set_version\<close> are aligned to different vectors, and a model
  that reads the column gives them different labels.
\<close>

theorem version_interferes_counterexample:
  "reindex (encode example_character) version_schema
     = Inr [(''honour_1to5'', PInt 3), (''feature_set_version'', PFloat 1)]
   \<and> reindex (encode (example_character\<lparr>feature_set_version := Some 2\<rparr>)) version_schema
     = Inr [(''honour_1to5'', PInt 3), (''feature_set_version'', PFloat 2)]
   \<and> predict \<lparr>model = Some version_model, feature_columns = Some version_schema\<rparr>
        example_character
     = ([Encode, Align, Infer], Inr [(''house_affiliation'', ''Stark'')])
   \<and> predict \<lparr>model = Some version_model, feature_columns = Some version_schema\<rparr>
        (example_character\<lparr>feature_set_version := Some 2\<rparr>)
     = ([Encode, Align, Infer], Inr [(''house_affiliation'', ''Lannister'')])"
  using reindex_version_1 reindex_version_2
  by (simp add: predict_def infer_def version_model_def)

theorem version_noninterference_witness:
  "''feature_set_version'' \<notin> set example_schema
   \<and> ''feature_set_version_nan'' \<notin> set example_schema
   \<and> feature_columns (ready_globals stark_model) = Some example_schema
   \<and> reindex (encode (example_character\<lparr>feature_set_version := Some 2\<rparr>)) example_schema
       = reindex (encode example_character) example_schema
   \<and> predict (ready_globals stark_model) (example_character\<lparr>feature_set_version := Some 2\<rparr>)
       = predict (ready_globals stark_model) example_character
   \<and> reindex (encode (example_character\<lparr>feature_set_version := None\<rparr>)) example_schema
       = reindex (encode example_character) example_schema
   \<and> predict (ready_globals stark_model) (example_character\<lparr>feature_set_version := None\<rparr>)
       = predict (ready_globals stark_model) example_character"
  using version_noninterference [of example_schema example_character "Some 2"
      "ready_globals stark_model"]
    version_noninterference [of example_schema example_character None
      "ready_globals stark_model"]
  by (simp add: example_schema_def ready_globals_def)


section \<open>Categorical values the schema does not know\<close>

text \<open>
  Outside the requests with a categorical value \<^verbatim>\<open>nan\<close>, the alignment treats a value
  that matches no schema column as the specification describes. The indicator group of a
  field is the set of labels that begin with the field's name and an underscore.
\<close>

lemma prefix_free_eq:
  "prefix_free names \<Longrightarrow> a \<in> set names \<Longrightarrow> b \<in> set names \<Longrightarrow> prefix a b \<Longrightarrow> a = b"
  by (induction names) auto

lemma prefix_free_distinct: "prefix_free names \<Longrightarrow> distinct names"
  by (induction names) auto

lemma prefix_free_filter: "prefix_free (map fst xs) \<Longrightarrow> prefix_free (map fst (filter P xs))"
  by (induction xs) auto

lemma bools_to_ints_filter:
  "bools_to_ints (filter (\<lambda>(key, v). key \<noteq> field) data)
     = filter (\<lambda>(key, v). key \<noteq> field) (bools_to_ints data)"
  by (induction data) (auto simp: bools_to_ints_def)

lemma group_label_key:
  assumes pf: "prefix_free names" and k: "k \<in> set names" and f: "field \<in> set names"
    and kl: "prefix k l" and fl: "prefix (field @ ''_'') l"
  shows "k = field"
proof -
  from kl fl have "prefix k (field @ ''_'') \<or> prefix (field @ ''_'') k"
    by (rule prefix_comparable)
  then show ?thesis
  proof
    assume "prefix k (field @ ''_'')"
    then have "k = field @ ''_'' \<or> prefix k field" by (simp add: prefix_snoc)
    then show ?thesis
    proof
      assume "k = field @ ''_''"
      then have "prefix field k" by simp
      with pf f k show ?thesis by (auto dest: prefix_free_eq)
    next
      assume "prefix k field"
      with pf f k show ?thesis by (auto dest: prefix_free_eq)
    qed
  next
    assume "prefix (field @ ''_'') k"
    then have "prefix field k" by (rule append_prefixD)
    with pf f k show ?thesis by (auto dest: prefix_free_eq)
  qed
qed

lemma set_encode: "set (encode c) = (\<Union>e \<in> set (bools_to_ints (dict c)). set (cells e))"
  by (simp add: encode_def set_get_dummies)

lemma set_encode_without:
  "set (encode_without field c)
     = (\<Union>e \<in> {e \<in> set (bools_to_ints (dict c)). fst e \<noteq> field}. set (cells e))"
  unfolding encode_without_def set_get_dummies bools_to_ints_filter
  by (auto simp del: cells.simps)

lemma distinct_encode_without:
  assumes "no_literal_nan c"
  shows "distinct (map fst (encode_without field c))"
proof -
  have "prefix_free (map fst (filter (\<lambda>(key, v). key \<noteq> field) (bools_to_ints (dict c))))"
    using prefix_free_dict by (rule prefix_free_filter)
  moreover have "\<forall>col. (col, PStr ''nan'')
      \<notin> set (filter (\<lambda>(key, v). key \<noteq> field) (bools_to_ints (dict c)))"
    using assms str_nan_in_dict [of c] by simp
  ultimately show ?thesis
    unfolding encode_without_def bools_to_ints_filter by (simp add: distinct_get_dummies)
qed

lemma categorical_entry:
  assumes "(field, PStr s) \<in> set (dict c)"
  shows "(field, PStr s) \<in> set (bools_to_ints (dict c))"
    and "(field, w) \<in> set (bools_to_ints (dict c)) \<Longrightarrow> w = PStr s"
proof -
  show a: "(field, PStr s) \<in> set (bools_to_ints (dict c))"
    using in_bools_to_ints [OF assms] by simp
  have "distinct (map fst (bools_to_ints (dict c)))"
    using prefix_free_dict by (rule prefix_free_distinct)
  then show "w = PStr s" if "(field, w) \<in> set (bools_to_ints (dict c))"
    using that a by (rule eq_key_imp_eq_value)
qed

lemma group_columns:
  assumes cat: "(field, PStr s) \<in> set (dict c)"
    and mem: "(l, x) \<in> set (encode c)" and grp: "prefix (field @ ''_'') l"
  shows "(l, x) = (field @ ''_'' @ s, PInt 1) \<or> (l, x) = (field @ ''_nan'', PInt 0)"
proof -
  from mem obtain k w where e: "(k, w) \<in> set (bools_to_ints (dict c))"
    and lx: "(l, x) \<in> set (cells (k, w))"
    unfolding set_encode by auto
  from e have kn: "k \<in> set (map fst (bools_to_ints (dict c)))" by force
  from categorical_entry(1) [OF cat]
  have fn: "field \<in> set (map fst (bools_to_ints (dict c)))" by force
  have "k = field"
    using prefix_free_dict kn fn cells_prefix [OF lx] grp by (rule group_label_key)
  with e categorical_entry(2) [OF cat] have "w = PStr s" by simp
  with lx \<open>k = field\<close> show ?thesis by simp
qed

lemma outside_group:
  assumes cat: "(field, PStr s) \<in> set (dict c)" and out: "\<not> prefix (field @ ''_'') l"
  shows "(l, x) \<in> set (encode_without field c) \<longleftrightarrow> (l, x) \<in> set (encode c)"
proof
  assume "(l, x) \<in> set (encode_without field c)"
  then show "(l, x) \<in> set (encode c)"
    unfolding set_encode set_encode_without by blast
next
  assume "(l, x) \<in> set (encode c)"
  then obtain k w where e: "(k, w) \<in> set (bools_to_ints (dict c))"
    and lx: "(l, x) \<in> set (cells (k, w))"
    unfolding set_encode by auto
  have "k \<noteq> field"
  proof
    assume "k = field"
    with e categorical_entry(2) [OF cat] have "w = PStr s" by simp
    with lx \<open>k = field\<close> out show False by auto
  qed
  with e lx show "(l, x) \<in> set (encode_without field c)"
    unfolding set_encode_without by force
qed

lemma without_has_no_group:
  assumes cat: "(field, PStr s) \<in> set (dict c)"
    and mem: "(l, x) \<in> set (encode_without field c)"
  shows "\<not> prefix (field @ ''_'') l"
proof
  assume grp: "prefix (field @ ''_'') l"
  from mem obtain k w where e: "(k, w) \<in> set (bools_to_ints (dict c))" and ne: "k \<noteq> field"
    and lx: "(l, x) \<in> set (cells (k, w))"
    unfolding set_encode_without by auto
  from e have kn: "k \<in> set (map fst (bools_to_ints (dict c)))" by force
  from categorical_entry(1) [OF cat]
  have fn: "field \<in> set (map fst (bools_to_ints (dict c)))" by force
  have "k = field"
    using prefix_free_dict kn fn cells_prefix [OF lx] grp by (rule group_label_key)
  with ne show False by contradiction
qed


lemma lookup_in_group:
  assumes cat: "(field, PStr s) \<in> set (dict c)"
    and unknown: "field @ ''_'' @ s \<notin> set cols"
    and k: "k \<in> set cols" and grp: "prefix (field @ ''_'') k"
  shows "(case map_of (encode c) k of None \<Rightarrow> PInt 0 | Some v \<Rightarrow> v) = PInt 0"
proof (cases "map_of (encode c) k")
  case None
  then show ?thesis by simp
next
  case (Some v)
  then have "(k, v) \<in> set (encode c)" by (rule map_of_SomeD)
  from group_columns [OF cat this grp] unknown k have "v = PInt 0" by auto
  with Some show ?thesis by simp
qed

lemma lookup_outside_group:
  assumes cat: "(field, PStr s) \<in> set (dict c)" and ok: "no_literal_nan c"
    and out: "\<not> prefix (field @ ''_'') k"
  shows "map_of (encode_without field c) k = map_of (encode c) k"
  using distinct_encode_without [OF ok] ok outside_group [OF cat out]
  by (intro map_of_agree) (simp_all add: distinct_encode)

lemma lookup_without:
  assumes cat: "(field, PStr s) \<in> set (dict c)" and ok: "no_literal_nan c"
    and unknown: "field @ ''_'' @ s \<notin> set cols" and k: "k \<in> set cols"
  shows "(case map_of (encode_without field c) k of None \<Rightarrow> PInt 0 | Some v \<Rightarrow> v)
    = (case map_of (encode c) k of None \<Rightarrow> PInt 0 | Some v \<Rightarrow> v)"
proof (cases "prefix (field @ ''_'') k")
  case True
  have "k \<notin> fst ` set (encode_without field c)"
    using without_has_no_group [OF cat] True by force
  then have "map_of (encode_without field c) k = None" by (simp add: map_of_eq_None_iff)
  with lookup_in_group [OF cat unknown k True] show ?thesis by simp
next
  case False
  with lookup_outside_group [OF cat ok] show ?thesis by simp
qed

text \<open>
  When the indicator of a categorical field's value is no schema column, the alignment
  succeeds, every schema column in the field's group is 0, and the result is the one
  obtained from the encoding of the request without that field.
\<close>

lemma unknown_category_policy:
  assumes cat: "(field, PStr s) \<in> set (dict c)" and ok: "no_literal_nan c"
    and unknown: "field @ ''_'' @ s \<notin> set cols"
  shows "\<exists>aligned. reindex (encode c) cols = Inr aligned
    \<and> (\<forall>(name, x) \<in> set aligned. prefix (field @ ''_'') name \<longrightarrow> x = PInt 0)
    \<and> reindex (encode_without field c) cols = Inr aligned"
proof -
  let ?aligned = "zip cols (align_spec (map_of (encode c)) cols)"
  have z: "?aligned
      = map (\<lambda>k. (k, case map_of (encode c) k of None \<Rightarrow> PInt 0 | Some v \<Rightarrow> v)) cols"
    by (simp add: align_spec_def zip_map2 zip_same_conv_map)
  have a: "reindex (encode c) cols = Inr ?aligned"
    using ok by (rule reindex_encode_ok)
  have b: "\<forall>(name, x) \<in> set ?aligned. prefix (field @ ''_'') name \<longrightarrow> x = PInt 0"
    unfolding z using lookup_in_group [OF cat unknown] by auto
  have "align_spec (map_of (encode_without field c)) cols = align_spec (map_of (encode c)) cols"
    unfolding align_spec_def using lookup_without [OF cat ok unknown]
    by (intro map_cong) simp_all
  then have c: "reindex (encode_without field c) cols = Inr ?aligned"
    using distinct_encode_without [OF ok] by (simp add: reindex_distinct)
  from a b c show ?thesis by blast
qed

text \<open>
  Two requests that differ only in one categorical field are aligned to vectors that
  differ only in that field's group.
\<close>

lemma known_value_differs_in_group_only:
  assumes cat: "(field, PStr s) \<in> set (dict c)" and cat': "(field, PStr s') \<in> set (dict c')"
    and ok: "no_literal_nan c" and ok': "no_literal_nan c'"
    and others: "filter (\<lambda>(key, v). key \<noteq> field) (dict c')
      = filter (\<lambda>(key, v). key \<noteq> field) (dict c)"
    and al: "reindex (encode c) cols = Inr aligned"
    and al': "reindex (encode c') cols = Inr aligned'"
  shows "\<forall>i < length cols. \<not> prefix (field @ ''_'') (cols ! i) \<longrightarrow> aligned' ! i = aligned ! i"
proof (intro allI impI)
  fix i assume i: "i < length cols" and out: "\<not> prefix (field @ ''_'') (cols ! i)"
  have w: "encode_without field c' = encode_without field c"
    by (simp add: encode_without_def others)
  have "map_of (encode c') (cols ! i) = map_of (encode c) (cols ! i)"
    using lookup_outside_group [OF cat ok out] lookup_outside_group [OF cat' ok' out] w
    by simp
  moreover have "aligned = zip cols (align_spec (map_of (encode c)) cols)"
    using al reindex_encode_ok [OF ok, of cols] by simp
  moreover have "aligned' = zip cols (align_spec (map_of (encode c')) cols)"
    using al' reindex_encode_ok [OF ok', of cols] by simp
  ultimately show "aligned' ! i = aligned ! i"
    using i by (simp add: align_spec_def)
qed

lemma unknown_region_example:
  "reindex (encode (example_character\<lparr>region := ''Atlantis''\<rparr>)) example_schema
     = Inr [(''honour_1to5'', PInt 3), (''trait_loyal'', PInt 1), (''region_North'', PInt 0),
            (''region_South'', PInt 0), (''region_nan'', PInt 0), (''species_Human'', PInt 1),
            (''species_nan'', PInt 0)]"
  by (simp add: reindex_encode_ok no_literal_nan_def example_character_def)
    (simp add: encode_def get_dummies_def bools_to_ints_def dict_def
      opt_bool_def opt_float_def native_int_def example_schema_def align_spec_def)

end
